theory Spec2Isabelle
  imports Complex_Main "HOL-Library.Sublist"
begin

section \<open>JavaScript values, rows and query parameters\<close>

text \<open>
  The service reads a worksheet into an array of row objects, rewrites each row
  (\<^verbatim>\<open>transformData\<close>) and keeps the rows matching the query string
  (\<^verbatim>\<open>filterData\<close>). Both functions are written three times in the repository:
  \<^verbatim>\<open>src/index.js\<close> and \<^verbatim>\<open>src/app.js\<close> hold the same text, and
  \<^verbatim>\<open>src/unnamed/part_000\<close> holds the same \<^verbatim>\<open>filterData\<close> and a
  \<^verbatim>\<open>transformData\<close> with two composite columns and four name columns.

  A cell is a JavaScript value. Numbers are IEEE doubles; the code only ever tests a number
  for truthiness and compares it with strings, so a finite number is carried as a real and
  the three special values are constructors of their own.
\<close>

datatype number = Finite real | NaN | PosInfinity | NegInfinity

datatype jsvalue = Undefined | Null | Bool bool | Num number | Str string

datatype error = TypeError

text \<open>
  A row object maps column names to cells; an absent key reads as \<^verbatim>\<open>undefined\<close>.
  Key order plays no role in either function. The rows of one array are distinct objects,
  as \<^verbatim>\<open>XLSX.utils.sheet_to_json\<close> builds them, so the in-place assignments of
  \<^verbatim>\<open>transformData\<close> are modelled by returning the updated row.
\<close>

type_synonym row = "string \<rightharpoonup> jsvalue"

text \<open>
  The query object is the list of its own (key, value) pairs in the order of
  \<^verbatim>\<open>Object.keys\<close>; every value is a string.
\<close>

type_synonym query = "(string \<times> string) list"

definition get :: "row \<Rightarrow> string \<Rightarrow> jsvalue" where
  \<comment> \<open>\<^verbatim>\<open>row[field]\<close>\<close>
  "get row field = (case row field of None \<Rightarrow> Undefined | Some v \<Rightarrow> v)"

definition keys :: "query \<Rightarrow> string list" where
  \<comment> \<open>\<^verbatim>\<open>Object.keys(queryParams)\<close>\<close>
  "keys queryParams = map fst queryParams"

definition param :: "query \<Rightarrow> string \<Rightarrow> jsvalue" where
  \<comment> \<open>\<^verbatim>\<open>queryParams[field]\<close>\<close>
  "param queryParams field =
     (case map_of queryParams field of None \<Rightarrow> Undefined | Some s \<Rightarrow> Str s)"

fun truthy :: "jsvalue \<Rightarrow> bool" where
  \<comment> \<open>ToBoolean, as applied by \<^verbatim>\<open>if (v)\<close>, \<^verbatim>\<open>v || w\<close>, \<^verbatim>\<open>v ? a : b\<close> and \<^verbatim>\<open>every\<close>\<close>
  "truthy Undefined = False"
| "truthy Null = False"
| "truthy (Bool b) = b"
| "truthy (Num (Finite r)) = (r \<noteq> 0)"
| "truthy (Num NaN) = False"
| "truthy (Num PosInfinity) = True"
| "truthy (Num NegInfinity) = True"
| "truthy (Str s) = (s \<noteq> [])"

definition or_empty :: "jsvalue \<Rightarrow> jsvalue" where
  \<comment> \<open>\<^verbatim>\<open>(v || '')\<close>\<close>
  "or_empty v = (if truthy v then v else Str [])"

definition strict_eq :: "jsvalue \<Rightarrow> jsvalue \<Rightarrow> bool" where
  \<comment> \<open>\<^verbatim>\<open>a === b\<close>: same type and same value; NaN equals nothing\<close>
  "strict_eq a b = (a = b \<and> a \<noteq> Num NaN)"

section \<open>String methods\<close>

text \<open>
  \<^verbatim>\<open>s.split(sep)\<close> with a string separator: the pieces of \<^verbatim>\<open>s\<close> between the
  occurrences of \<^verbatim>\<open>sep\<close>, found from the left and not overlapping. The empty
  separator cuts the string into its units.
\<close>

function split_from :: "'a list \<Rightarrow> 'a list \<Rightarrow> 'a list \<Rightarrow> 'a list list" where
  "split_from sep cur [] = [cur]"
| "split_from sep cur (c # cs) =
     (if sep \<noteq> [] \<and> prefix sep (c # cs)
      then cur # split_from sep [] (drop (length sep) (c # cs))
      else split_from sep (cur @ [c]) cs)"
  by pat_completeness auto
termination
  by (relation "measure (\<lambda>(sep, cur, s). length s)") auto

definition split :: "'a list \<Rightarrow> 'a list \<Rightarrow> 'a list list" where
  "split s sep = (if sep = [] then map (\<lambda>c. [c]) s else split_from sep [] s)"

definition replace_Ext_at :: "string \<Rightarrow> string" where
  \<comment> \<open>\<^verbatim>\<open>s.replace(/^Ext\. at /, '')\<close>: the pattern is anchored at the start and has no flag\<close>
  "replace_Ext_at s =
     (if prefix ''Ext. at '' s then drop (length ''Ext. at '') s else s)"

text \<open>
  A method call on a value: only strings have \<^verbatim>\<open>replace\<close> and \<^verbatim>\<open>split\<close>.
  On a number or a boolean the property is \<^verbatim>\<open>undefined\<close> and the call raises a
  TypeError, as does the property access on \<^verbatim>\<open>undefined\<close> and \<^verbatim>\<open>null\<close>.
\<close>

definition call_replace_Ext_at :: "jsvalue \<Rightarrow> error + string" where
  "call_replace_Ext_at v = (case v of Str s \<Rightarrow> Inr (replace_Ext_at s) | _ \<Rightarrow> Inl TypeError)"

definition call_split :: "jsvalue \<Rightarrow> string \<Rightarrow> error + string list" where
  "call_split v sep = (case v of Str s \<Rightarrow> Inr (split s sep) | _ \<Rightarrow> Inl TypeError)"

section \<open>Array methods with a callback that may throw\<close>

fun every :: "('a \<Rightarrow> error + jsvalue) \<Rightarrow> 'a list \<Rightarrow> error + bool" where
  \<comment> \<open>\<^verbatim>\<open>xs.every(p)\<close>: stops at the first element whose result is falsy\<close>
  "every p [] = Inr True"
| "every p (x # xs) =
     (case p x of Inl e \<Rightarrow> Inl e
      | Inr v \<Rightarrow> if truthy v then every p xs else Inr False)"

definition some :: "('a \<Rightarrow> bool) \<Rightarrow> 'a list \<Rightarrow> bool" where
  \<comment> \<open>\<^verbatim>\<open>xs.some(p)\<close> for a callback that cannot throw\<close>
  "some p xs = list_ex p xs"

fun filter_rows :: "('a \<Rightarrow> error + jsvalue) \<Rightarrow> 'a list \<Rightarrow> error + 'a list" where
  \<comment> \<open>\<^verbatim>\<open>xs.filter(p)\<close>\<close>
  "filter_rows p [] = Inr []"
| "filter_rows p (x # xs) =
     (case p x of Inl e \<Rightarrow> Inl e
      | Inr v \<Rightarrow>
          (case filter_rows p xs of Inl e \<Rightarrow> Inl e
           | Inr ys \<Rightarrow> Inr (if truthy v then x # ys else ys)))"

fun map_rows :: "('a \<Rightarrow> error + 'b) \<Rightarrow> 'a list \<Rightarrow> error + 'b list" where
  \<comment> \<open>\<^verbatim>\<open>xs.map(f)\<close>\<close>
  "map_rows f [] = Inr []"
| "map_rows f (x # xs) =
     (case f x of Inl e \<Rightarrow> Inl e
      | Inr y \<Rightarrow>
          (case map_rows f xs of Inl e \<Rightarrow> Inl e
           | Inr ys \<Rightarrow> Inr (y # ys)))"

section \<open>filterData\<close>

text \<open>
  \<^verbatim>\<open>
  function filterData(data, queryParams) {
      return data.filter(row => {
          return Object.keys(queryParams).every(field => {
              if (field != "tab")
              {
                  const fieldValues = queryParams[field].split(',');
                  return fieldValues.some(value => row[field] === value);
              }
          });
      });
  }
  \<close>
  The inner callback has no \<^verbatim>\<open>return\<close> on the path where the field is
  \<^verbatim>\<open>"tab"\<close>: its result there is \<^verbatim>\<open>undefined\<close>.
\<close>

definition fieldTest :: "query \<Rightarrow> row \<Rightarrow> string \<Rightarrow> error + jsvalue" where
  "fieldTest queryParams row field =
     (if field \<noteq> ''tab'' then
        (case call_split (param queryParams field) '','' of
           Inl e \<Rightarrow> Inl e
         | Inr fieldValues \<Rightarrow>
             Inr (Bool (some (\<lambda>value. strict_eq (get row field) (Str value)) fieldValues)))
      else Inr Undefined)"

definition rowTest :: "query \<Rightarrow> row \<Rightarrow> error + jsvalue" where
  "rowTest queryParams row =
     (case every (fieldTest queryParams row) (keys queryParams) of
        Inl e \<Rightarrow> Inl e
      | Inr b \<Rightarrow> Inr (Bool b))"

definition filterData :: "row list \<Rightarrow> query \<Rightarrow> error + row list" where
  "filterData data queryParams = filter_rows (rowTest queryParams) data"

section \<open>transformData\<close>

text \<open>
  The block that derives client and project from a composite column, written once in
  \<^verbatim>\<open>src/index.js\<close> and twice in \<^verbatim>\<open>part_000\<close>:
  \<^verbatim>\<open>
  var client = '';
  var project = '';
  if (row['Primary Opp'])
  {
      const primaryOpp = (row['Primary Opp'] || '').replace(/^Ext\. at /, '');
      const segments = primaryOpp.split(' - ');
      if (segments.length >= 2)
      {
          client = segments[0];
          project = segments[1];
      }
  }
  \<close>
  The result is the stripped text (which \<^verbatim>\<open>part_000\<close> keeps in a variable that starts
  as the empty string), the client and the project.
\<close>

definition splitComposite :: "jsvalue \<Rightarrow> error + (string \<times> string \<times> string)" where
  "splitComposite v =
     (if truthy v then
        (case call_replace_Ext_at (or_empty v) of
           Inl e \<Rightarrow> Inl e
         | Inr primaryOpp \<Rightarrow>
             (let segments = split primaryOpp '' - ''
              in if length segments \<ge> 2
                 then Inr (primaryOpp, segments ! 0, segments ! 1)
                 else Inr (primaryOpp, [], [])))
      else Inr ([], [], []))"

text \<open>
  The block that rewrites a name column, written once per column:
  \<^verbatim>\<open>
  if (row['Name'])
  {
      const [lastName, firstName] = (row['Name'] || '').split(', ');
      row['Name'] = firstName ? `${firstName} ${lastName}` : '';
  }
  \<close>
  The destructuring binds \<^verbatim>\<open>firstName\<close> to \<^verbatim>\<open>undefined\<close> when the array has
  fewer than two elements.
\<close>

definition formatName :: "string list \<Rightarrow> string" where
  "formatName parts =
     (case parts of
        lastName # firstName # _ \<Rightarrow>
          if firstName \<noteq> [] then firstName @ '' '' @ lastName else []
      | _ \<Rightarrow> [])"

definition convertName :: "string \<Rightarrow> row \<Rightarrow> error + row" where
  "convertName field row =
     (if truthy (get row field) then
        (case call_split (or_empty (get row field)) '', '' of
           Inl e \<Rightarrow> Inl e
         | Inr parts \<Rightarrow> Inr (row(field \<mapsto> Str (formatName parts))))
      else Inr row)"

text \<open>The row callback of \<^verbatim>\<open>src/index.js\<close> and \<^verbatim>\<open>src/app.js\<close>.\<close>

definition transformRow :: "row \<Rightarrow> error + row" where
  "transformRow row =
     (case splitComposite (get row ''Primary Opp'') of
        Inl e \<Rightarrow> Inl e
      | Inr (primaryOpp, client, project) \<Rightarrow>
     (case convertName ''Name'' row of
        Inl e \<Rightarrow> Inl e
      | Inr row1 \<Rightarrow>
     (case convertName ''Primary Owner'' row1 of
        Inl e \<Rightarrow> Inl e
      | Inr row2 \<Rightarrow>
          Inr (row2(''Client'' \<mapsto> Str client, ''Project'' \<mapsto> Str project)))))"

definition transformData :: "row list \<Rightarrow> error + row list" where
  "transformData spreadsheetData = map_rows transformRow spreadsheetData"

text \<open>The row callback of \<^verbatim>\<open>src/unnamed/part_000\<close>.\<close>

definition transformRow_part_000 :: "row \<Rightarrow> error + row" where
  "transformRow_part_000 row =
     (case splitComposite (get row ''Primary Opp'') of
        Inl e \<Rightarrow> Inl e
      | Inr (next_client_project, next_client, next_project) \<Rightarrow>
     (case splitComposite (get row ''Current Eng.'') of
        Inl e \<Rightarrow> Inl e
      | Inr (current_client_project, current_client, current_project) \<Rightarrow>
     (case convertName ''Name'' row of
        Inl e \<Rightarrow> Inl e
      | Inr row1 \<Rightarrow>
     (case convertName ''Primary Owner'' row1 of
        Inl e \<Rightarrow> Inl e
      | Inr row2 \<Rightarrow>
     (case convertName ''Current Owner'' row2 of
        Inl e \<Rightarrow> Inl e
      | Inr row3 \<Rightarrow>
     (case convertName ''Manager'' row3 of
        Inl e \<Rightarrow> Inl e
      | Inr row4 \<Rightarrow>
          Inr (row4(''ClientProject'' \<mapsto> Str current_client_project,
                    ''Client'' \<mapsto> Str current_client,
                    ''Project'' \<mapsto> Str current_project,
                    ''NextClientOpp'' \<mapsto> Str next_client_project,
                    ''NextClient'' \<mapsto> Str next_client,
                    ''NextProject'' \<mapsto> Str next_project))))))))"

definition transformData_part_000 :: "row list \<Rightarrow> error + row list" where
  "transformData_part_000 spreadsheetData = map_rows transformRow_part_000 spreadsheetData"

section \<open>The filter as the specification words it\<close>

text \<open>
  The accepted values of a constraint key are its value split on the comma. A row passes
  a key when its cell in that column is a string equal to one of them; a row is kept when
  it passes every key of the constraint mapping.
\<close>

definition accepted :: "query \<Rightarrow> string \<Rightarrow> string list" where
  "accepted c k = (case map_of c k of None \<Rightarrow> [] | Some s \<Rightarrow> split s '','')"

definition passes_key :: "query \<Rightarrow> row \<Rightarrow> string \<Rightarrow> bool" where
  "passes_key c r k = (\<exists>a \<in> set (accepted c k). r k = Some (Str a))"

definition spec_filter :: "row list \<Rightarrow> query \<Rightarrow> row list" where
  "spec_filter rows c = filter (\<lambda>r. \<forall>k \<in> set (map fst c). passes_key c r k) rows"

text \<open>
  The cells \<^verbatim>\<open>transformData\<close> calls a string method on: a truthy cell that is not a
  string has no such method.
\<close>

definition text_or_falsy :: "jsvalue \<Rightarrow> bool" where
  "text_or_falsy v = (case v of Str s \<Rightarrow> True | _ \<Rightarrow> \<not> truthy v)"

definition textual :: "row \<Rightarrow> bool" where
  "textual r =
     list_all (\<lambda>k. text_or_falsy (get r k)) [''Primary Opp'', ''Name'', ''Primary Owner'']"

section \<open>Properties of the building blocks\<close>

subsection \<open>Reading cells and query parameters\<close>

lemma get_Some [simp]: "r k = Some v \<Longrightarrow> get r k = v"
  by (simp add: get_def)

lemma get_None [simp]: "r k = None \<Longrightarrow> get r k = Undefined"
  by (simp add: get_def)

lemma get_upd_other [simp]: "k \<noteq> f \<Longrightarrow> get (r(f \<mapsto> v)) k = get r k"
  by (simp add: get_def)

lemma param_key:
  "field \<in> set (keys c) \<Longrightarrow> \<exists>s. map_of c field = Some s \<and> param c field = Str s"
proof -
  assume "field \<in> set (keys c)"
  then have "field \<in> fst ` set c" by (simp add: keys_def)
  then obtain s where "map_of c field = Some s"
    by (metis domD dom_map_of_conv_image_fst)
  then show ?thesis by (simp add: param_def)
qed

lemma error_cases: "(x :: error + 'a) = Inl TypeError \<longleftrightarrow> (\<nexists>y. x = Inr y)"
  by (cases x) (auto intro: error.exhaust)

subsection \<open>The array methods\<close>

lemma filter_rows_Bool:
  "(\<And>x. x \<in> set xs \<Longrightarrow> p x = Inr (Bool (q x))) \<Longrightarrow> filter_rows p xs = Inr (filter q xs)"
  by (induction xs) simp_all

lemma map_rows_all2:
  "map_rows f xs = Inr ys \<longleftrightarrow> list_all2 (\<lambda>x y. f x = Inr y) xs ys"
proof (induction xs arbitrary: ys)
  case Nil
  show ?case by auto
next
  case (Cons x xs)
  show ?case
    by (cases ys) (auto simp: Cons.IH [symmetric] split: sum.splits)
qed

lemma map_rows_nth:
  assumes "map_rows f xs = Inr ys"
  shows "length ys = length xs" and "i < length xs \<Longrightarrow> f (xs ! i) = Inr (ys ! i)"
  using assms by (auto simp: map_rows_all2 list_all2_conv_all_nth)

lemma map_rows_Inl:
  "(\<exists>ys. map_rows f xs = Inr ys) \<longleftrightarrow> (\<forall>x \<in> set xs. \<exists>y. f x = Inr y)"
  by (induction xs) (auto split: sum.splits)

subsection \<open>The filter callbacks never throw\<close>

text \<open>
  Every field the inner callback sees is a key of the query object, so the value it splits
  is a string. The callback's result is the boolean of \<^verbatim>\<open>some\<close> on every key but
  \<^verbatim>\<open>"tab"\<close>, where it is \<^verbatim>\<open>undefined\<close>.
\<close>

lemma fieldTest_key:
  assumes "field \<in> set (keys c)"
  shows "fieldTest c r field =
           (if field \<noteq> ''tab'' then Inr (Bool (passes_key c r field)) else Inr Undefined)"
proof -
  from param_key [OF assms] obtain s where s: "map_of c field = Some s" "param c field = Str s"
    by blast
  have "some (\<lambda>value. strict_eq (get r field) (Str value)) (split s '','')
          = passes_key c r field"
    by (auto simp: some_def list_ex_iff passes_key_def accepted_def s strict_eq_def get_def
        split: option.splits)
  then show ?thesis
    by (simp add: fieldTest_def s call_split_def)
qed

lemma every_fieldTest:
  "set fields \<subseteq> set (keys c) \<Longrightarrow>
     every (fieldTest c r) fields =
       Inr (list_all (\<lambda>field. field \<noteq> ''tab'' \<and> passes_key c r field) fields)"
  by (induction fields) (simp_all add: fieldTest_key)

lemma rowTest_eq:
  "rowTest c r = Inr (Bool (list_all (\<lambda>field. field \<noteq> ''tab'' \<and> passes_key c r field) (keys c)))"
  by (simp add: rowTest_def every_fieldTest)

lemma filterData_eq:
  "filterData data c =
     Inr (filter (\<lambda>r. list_all (\<lambda>field. field \<noteq> ''tab'' \<and> passes_key c r field) (keys c)) data)"
  unfolding filterData_def by (rule filter_rows_Bool) (rule rowTest_eq)

lemma filterData_tab:
  "''tab'' \<in> set (keys c) \<Longrightarrow> filterData data c = Inr []"
  by (auto simp: filterData_eq list_all_iff filter_empty_conv)

subsection \<open>The two blocks of the row callback\<close>

lemma formatName_eq:
  "formatName parts =
     (if 2 \<le> length parts \<and> parts ! 1 \<noteq> [] then parts ! 1 @ '' '' @ parts ! 0 else [])"
  by (cases parts; cases "tl parts") (auto simp: formatName_def)

lemma convertName_text:
  "convertName field r =
     (case get r field of
        Str s \<Rightarrow> if s = [] then Inr r else Inr (r(field \<mapsto> Str (formatName (split s '', ''))))
      | v \<Rightarrow> if truthy v then Inl TypeError else Inr r)"
  by (cases "get r field") (simp_all add: convertName_def or_empty_def call_split_def)

lemma convertName_returns:
  "(\<exists>r'. convertName field r = Inr r') \<longleftrightarrow> text_or_falsy (get r field)"
  by (cases "get r field") (auto simp: convertName_text text_or_falsy_def)

lemma convertName_other:
  "convertName field r = Inr r' \<Longrightarrow> k \<noteq> field \<Longrightarrow> r' k = r k"
  by (cases "get r field") (auto simp: convertName_text split: if_splits)

lemma convertName_get_other:
  "convertName field r = Inr r' \<Longrightarrow> k \<noteq> field \<Longrightarrow> get r' k = get r k"
  by (simp add: get_def convertName_other)

lemma splitComposite_text:
  "splitComposite v =
     (case v of
        Str s \<Rightarrow>
          if s = [] then Inr ([], [], [])
          else (let segments = split (replace_Ext_at s) '' - ''
                in Inr (replace_Ext_at s,
                        if 2 \<le> length segments then segments ! 0 else [],
                        if 2 \<le> length segments then segments ! 1 else []))
      | w \<Rightarrow> if truthy w then Inl TypeError else Inr ([], [], []))"
  by (cases v) (simp_all add: splitComposite_def or_empty_def call_replace_Ext_at_def Let_def)

lemma splitComposite_returns:
  "(\<exists>d. splitComposite v = Inr d) \<longleftrightarrow> text_or_falsy v"
  by (cases v) (auto simp: splitComposite_text text_or_falsy_def Let_def)

lemma transformRow_steps:
  "transformRow r = Inr out \<longleftrightarrow>
     (\<exists>primaryOpp client project row1 row2.
        splitComposite (get r ''Primary Opp'') = Inr (primaryOpp, client, project) \<and>
        convertName ''Name'' r = Inr row1 \<and>
        convertName ''Primary Owner'' row1 = Inr row2 \<and>
        out = row2(''Client'' \<mapsto> Str client, ''Project'' \<mapsto> Str project))"
  by (auto simp: transformRow_def split: sum.splits prod.splits)

lemma transformRow_returns:
  "(\<exists>out. transformRow r = Inr out) \<longleftrightarrow> textual r"
proof
  assume "\<exists>out. transformRow r = Inr out"
  then obtain primaryOpp client project row1 row2 where
    a: "splitComposite (get r ''Primary Opp'') = Inr (primaryOpp, client, project)"
    and b: "convertName ''Name'' r = Inr row1"
    and c: "convertName ''Primary Owner'' row1 = Inr row2"
    unfolding transformRow_steps by blast
  have "text_or_falsy (get r ''Primary Opp'')"
    using a splitComposite_returns by blast
  moreover have "text_or_falsy (get r ''Name'')"
    using b convertName_returns by blast
  moreover have "text_or_falsy (get row1 ''Primary Owner'')"
    using c convertName_returns by blast
  then have "text_or_falsy (get r ''Primary Owner'')"
    using convertName_get_other [OF b, of "''Primary Owner''"] by simp
  ultimately show "textual r"
    by (simp add: textual_def)
next
  assume t: "textual r"
  then have "text_or_falsy (get r ''Primary Opp'')"
    by (simp add: textual_def)
  then have "\<exists>d. splitComposite (get r ''Primary Opp'') = Inr d"
    by (rule iffD2 [OF splitComposite_returns])
  then obtain d where a: "splitComposite (get r ''Primary Opp'') = Inr d" ..
  from t have "\<exists>row1. convertName ''Name'' r = Inr row1"
    by (simp add: convertName_returns textual_def)
  then obtain row1 where b: "convertName ''Name'' r = Inr row1" ..
  have "text_or_falsy (get row1 ''Primary Owner'')"
    using convertName_get_other [OF b, of "''Primary Owner''"] t by (simp add: textual_def)
  then obtain row2 where c: "convertName ''Primary Owner'' row1 = Inr row2"
    using convertName_returns by blast
  obtain primaryOpp client project where "d = (primaryOpp, client, project)"
    by (cases d) auto
  with a b c show "\<exists>out. transformRow r = Inr out"
    unfolding transformRow_steps by blast
qed

subsection \<open>Splitting a string\<close>

text \<open>
  \<^verbatim>\<open>split\<close> yields two or more pieces exactly when the separator occurs in the
  string; without an occurrence the string is the only piece, and the first piece ends at
  the leftmost occurrence.
\<close>

lemma split_from_nonempty: "split_from sep cur s \<noteq> []"
  by (induction sep cur s rule: split_from.induct) auto

lemma split_from_length:
  "sep \<noteq> [] \<Longrightarrow> 2 \<le> length (split_from sep cur s) \<longleftrightarrow> sublist sep s"
proof (induction sep cur s rule: split_from.induct)
  case (1 sep cur)
  then show ?case by simp
next
  case (2 sep cur c cs)
  show ?case
  proof (cases "prefix sep (c # cs)")
    case True
    have "1 \<le> length (split_from sep [] (drop (length sep) (c # cs)))"
      using split_from_nonempty [of sep "[]" "drop (length sep) (c # cs)"]
      by (cases "split_from sep [] (drop (length sep) (c # cs))") simp_all
    with True "2.prems" show ?thesis
      by (simp add: sublist_Cons_right)
  next
    case False
    with "2.IH"(2) "2.prems" show ?thesis
      by (simp add: sublist_Cons_right)
  qed
qed

lemma split_length:
  "sep \<noteq> [] \<Longrightarrow> 2 \<le> length (split s sep) \<longleftrightarrow> sublist sep s"
  by (simp add: split_def split_from_length)

lemma split_from_first:
  assumes "sep \<noteq> []" and "\<not> sublist sep (left @ butlast sep)"
  shows "split_from sep cur (left @ sep @ right) = (cur @ left) # split_from sep [] right"
  using assms(2)
proof (induction left arbitrary: cur)
  case Nil
  from assms(1) obtain c cs where sep: "sep = c # cs" by (cases sep) auto
  have "split_from sep cur (sep @ right) = cur # split_from sep [] (drop (length sep) (sep @ right))"
    unfolding sep by simp
  then show ?case by simp
next
  case (Cons a left)
  have np: "\<not> prefix sep (a # left @ sep @ right)"
  proof
    assume "prefix sep (a # left @ sep @ right)"
    then have "take (length sep) ((a # left) @ sep @ right) = sep"
      by (metis append_Cons append_eq_conv_conj prefix_def)
    moreover have "(a # left) @ sep @ right = ((a # left) @ butlast sep) @ (last sep # right)"
      using assms(1) by simp
    moreover have "length sep \<le> length ((a # left) @ butlast sep)"
      by simp
    ultimately have "take (length sep) ((a # left) @ butlast sep) = sep"
      by (metis take_append diff_is_0_eq take_0 append_Nil2)
    then have "prefix sep ((a # left) @ butlast sep)"
      by (metis take_is_prefix)
    with Cons.prems show False
      by (meson prefix_imp_sublist)
  qed
  have "\<not> sublist sep (left @ butlast sep)"
    using Cons.prems by (simp add: sublist_Cons_right)
  from Cons.IH [OF this, of "cur @ [a]"] np show ?case
    by simp
qed

lemma split_first:
  "sep \<noteq> [] \<Longrightarrow> \<not> sublist sep (left @ butlast sep) \<Longrightarrow>
     split (left @ sep @ right) sep = left # split right sep"
  using split_from_first [of sep left "[]" right] by (simp add: split_def)

lemma split_none:
  "sep \<noteq> [] \<Longrightarrow> \<not> sublist sep s \<Longrightarrow> split s sep = [s]"
proof -
  have "\<not> sublist sep s \<Longrightarrow> split_from sep cur s = [cur @ s]" for cur
  proof (induction s arbitrary: cur)
    case Nil
    show ?case by simp
  next
    case (Cons c cs)
    then show ?case by (simp add: sublist_Cons_right)
  qed
  then show "sep \<noteq> [] \<Longrightarrow> \<not> sublist sep s \<Longrightarrow> split s sep = [s]"
    by (simp add: split_def)
qed

lemma replace_Ext_at_prefix: "replace_Ext_at (''Ext. at '' @ t) = t"
  by (simp add: replace_Ext_at_def)

lemma replace_Ext_at_other: "\<not> prefix ''Ext. at '' s \<Longrightarrow> replace_Ext_at s = s"
  by (simp add: replace_Ext_at_def)

subsection \<open>The row callback, step by step\<close>

lemma convertName_upd:
  "k \<noteq> field \<Longrightarrow>
     convertName field (r(k := x)) =
       (case convertName field r of Inl e \<Rightarrow> Inl e | Inr r1 \<Rightarrow> Inr (r1(k := x)))"
  by (cases "get r field")
     (auto simp: convertName_def get_def or_empty_def call_split_def fun_upd_twist
           split: option.splits)

lemma convertName_field_Str:
  "convertName field r = Inr r' \<Longrightarrow> r field = Some (Str s) \<Longrightarrow> s \<noteq> [] \<Longrightarrow>
     r' field = Some (Str (formatName (split s '', '')))"
  by (auto simp: convertName_text)

lemma convertName_field_None:
  "convertName field r = Inr r' \<Longrightarrow> r field = None \<Longrightarrow> r' field = None"
  by (auto simp: convertName_text)

lemma transformRow_ignores:
  "transformRow (r(''Client'' := c, ''Project'' := p)) = transformRow r"
proof -
  have g: "get (r(''Client'' := c, ''Project'' := p)) ''Primary Opp'' = get r ''Primary Opp''"
    by (simp add: get_def)
  have u: "(row2(''Client'' := c, ''Project'' := p))(''Client'' \<mapsto> a, ''Project'' \<mapsto> b)
             = row2(''Client'' \<mapsto> a, ''Project'' \<mapsto> b)" for row2 :: row and a b
    by (rule ext) simp
  show ?thesis
    unfolding transformRow_def g
    by (simp add: convertName_upd u split: sum.splits prod.splits)
qed

lemma transformRow_derived:
  assumes "transformRow r = Inr out"
    and "splitComposite (get r ''Primary Opp'') = Inr (primaryOpp, client, project)"
  shows "out ''Client'' = Some (Str client)" and "out ''Project'' = Some (Str project)"
  using assms unfolding transformRow_steps by auto

lemma transformRow_name:
  assumes "transformRow r = Inr out" and "field = ''Name'' \<or> field = ''Primary Owner''"
  shows "r field = Some (Str s) \<Longrightarrow> s \<noteq> [] \<Longrightarrow>
           out field = Some (Str (formatName (split s '', '')))"
    and "r field = None \<Longrightarrow> out field = None"
proof -
  from assms(1) obtain primaryOpp client project row1 row2 where
    b: "convertName ''Name'' r = Inr row1"
    and c: "convertName ''Primary Owner'' row1 = Inr row2"
    and o: "out = row2(''Client'' \<mapsto> Str client, ''Project'' \<mapsto> Str project)"
    unfolding transformRow_steps by blast
  have 1: "row1 ''Primary Owner'' = r ''Primary Owner''"
    using convertName_other [OF b, of "''Primary Owner''"] by simp
  have 2: "row2 ''Name'' = row1 ''Name''"
    using convertName_other [OF c, of "''Name''"] by simp
  have 3: "out field = row2 field"
    using assms(2) o by auto
  show "out field = Some (Str (formatName (split s '', '')))"
    if "r field = Some (Str s)" and "s \<noteq> []"
    using assms(2) that 1 2 3 convertName_field_Str [OF b, of s] convertName_field_Str [OF c, of s]
    by auto
  show "out field = None" if "r field = None"
    using assms(2) that 1 2 3 convertName_field_None [OF b] convertName_field_None [OF c]
    by auto
qed

lemma transformData_nth:
  assumes "transformData rows = Inr out"
  shows "length out = length rows" and "i < length rows \<Longrightarrow> transformRow (rows ! i) = Inr (out ! i)"
  using assms map_rows_nth [of transformRow rows out] by (simp_all add: transformData_def)

subsection \<open>The variant with two composite columns\<close>

text \<open>
  In \<^verbatim>\<open>part_000\<close> the same two blocks run on more columns: \<^verbatim>\<open>Primary Opp\<close> feeds
  \<^verbatim>\<open>NextClientOpp\<close>, \<^verbatim>\<open>NextClient\<close> and \<^verbatim>\<open>NextProject\<close>, while \<^verbatim>\<open>Client\<close>
  and \<^verbatim>\<open>Project\<close> come from \<^verbatim>\<open>Current Eng.\<close>; the name rule also covers
  \<^verbatim>\<open>Current Owner\<close> and \<^verbatim>\<open>Manager\<close>.
\<close>

lemma transformRow_part_000_steps:
  "transformRow_part_000 r = Inr out \<longleftrightarrow>
     (\<exists>next_client_project next_client next_project
         current_client_project current_client current_project row1 row2 row3 row4.
        splitComposite (get r ''Primary Opp'')
          = Inr (next_client_project, next_client, next_project) \<and>
        splitComposite (get r ''Current Eng.'')
          = Inr (current_client_project, current_client, current_project) \<and>
        convertName ''Name'' r = Inr row1 \<and>
        convertName ''Primary Owner'' row1 = Inr row2 \<and>
        convertName ''Current Owner'' row2 = Inr row3 \<and>
        convertName ''Manager'' row3 = Inr row4 \<and>
        out = row4(''ClientProject'' \<mapsto> Str current_client_project,
                   ''Client'' \<mapsto> Str current_client,
                   ''Project'' \<mapsto> Str current_project,
                   ''NextClientOpp'' \<mapsto> Str next_client_project,
                   ''NextClient'' \<mapsto> Str next_client,
                   ''NextProject'' \<mapsto> Str next_project))"
  by (auto simp: transformRow_part_000_def split: sum.splits prod.splits)

lemma transformData_part_000_nth:
  assumes "transformData_part_000 rows = Inr out"
  shows "length out = length rows"
    and "i < length rows \<Longrightarrow> transformRow_part_000 (rows ! i) = Inr (out ! i)"
  using assms map_rows_nth [of transformRow_part_000 rows out]
  by (simp_all add: transformData_part_000_def)

lemma transformRow_part_000_derived:
  assumes "transformRow_part_000 r = Inr out"
    and "splitComposite (get r ''Primary Opp'')
           = Inr (next_client_project, next_client, next_project)"
    and "splitComposite (get r ''Current Eng.'')
           = Inr (current_client_project, current_client, current_project)"
  shows "out ''ClientProject'' = Some (Str current_client_project)"
    and "out ''Client'' = Some (Str current_client)"
    and "out ''Project'' = Some (Str current_project)"
    and "out ''NextClientOpp'' = Some (Str next_client_project)"
    and "out ''NextClient'' = Some (Str next_client)"
    and "out ''NextProject'' = Some (Str next_project)"
  using assms unfolding transformRow_part_000_steps by auto

lemma transformRow_part_000_name:
  assumes "transformRow_part_000 r = Inr out"
    and "field = ''Name'' \<or> field = ''Primary Owner'' \<or> field = ''Current Owner'' \<or>
         field = ''Manager''"
  shows "r field = Some (Str s) \<Longrightarrow> s \<noteq> [] \<Longrightarrow>
           out field = Some (Str (formatName (split s '', '')))"
    and "r field = None \<Longrightarrow> out field = None"
proof -
  from assms(1) obtain ccp cc cp ncp nc np row1 row2 row3 row4 where
    a: "convertName ''Name'' r = Inr row1"
    and b: "convertName ''Primary Owner'' row1 = Inr row2"
    and c: "convertName ''Current Owner'' row2 = Inr row3"
    and d: "convertName ''Manager'' row3 = Inr row4"
    and o: "out = row4(''ClientProject'' \<mapsto> Str ccp, ''Client'' \<mapsto> Str cc,
                      ''Project'' \<mapsto> Str cp, ''NextClientOpp'' \<mapsto> Str ncp,
                      ''NextClient'' \<mapsto> Str nc, ''NextProject'' \<mapsto> Str np)"
    unfolding transformRow_part_000_steps by blast
  note keep = convertName_other [OF a] convertName_other [OF b]
    convertName_other [OF c] convertName_other [OF d]
  have 1: "row4 ''Name'' = row1 ''Name''"
    by (simp add: keep)
  have 2: "row1 ''Primary Owner'' = r ''Primary Owner''" "row4 ''Primary Owner'' = row2 ''Primary Owner''"
    by (simp_all add: keep)
  have 3: "row2 ''Current Owner'' = r ''Current Owner''" "row4 ''Current Owner'' = row3 ''Current Owner''"
    by (simp_all add: keep)
  have 4: "row3 ''Manager'' = r ''Manager''"
    by (simp add: keep)
  have 5: "out field = row4 field"
    using assms(2) o by auto
  show "out field = Some (Str (formatName (split s '', '')))"
    if "r field = Some (Str s)" and "s \<noteq> []"
    using assms(2) that 1 2 3 4 5
      convertName_field_Str [OF a, of s] convertName_field_Str [OF b, of s]
      convertName_field_Str [OF c, of s] convertName_field_Str [OF d, of s]
    by auto
  show "out field = None" if "r field = None"
    using assms(2) that 1 2 3 4 5
      convertName_field_None [OF a] convertName_field_None [OF b]
      convertName_field_None [OF c] convertName_field_None [OF d]
    by auto
qed

lemma transformData_part_000_example:
  "transformData_part_000
     [[''Primary Opp'' \<mapsto> Str ''Ext. at Acme - Widget'', ''Manager'' \<mapsto> Str ''Doe, Jane'']]
   = Inr [[''Primary Opp'' \<mapsto> Str ''Ext. at Acme - Widget'', ''Manager'' \<mapsto> Str ''Jane Doe'',
           ''ClientProject'' \<mapsto> Str [], ''Client'' \<mapsto> Str [], ''Project'' \<mapsto> Str [],
           ''NextClientOpp'' \<mapsto> Str ''Acme - Widget'', ''NextClient'' \<mapsto> Str ''Acme'',
           ''NextProject'' \<mapsto> Str ''Widget'']]"
  by (simp add: transformData_part_000_def transformRow_part_000_def splitComposite_def
      convertName_def formatName_def get_def or_empty_def call_split_def call_replace_Ext_at_def
      replace_Ext_at_def split_def)

lemma transformRow_part_000_ignores:
  "transformRow_part_000 (r(''Client'' := c, ''Project'' := p)) = transformRow_part_000 r"
proof -
  have g: "get (r(''Client'' := c, ''Project'' := p)) ''Primary Opp'' = get r ''Primary Opp''"
    "get (r(''Client'' := c, ''Project'' := p)) ''Current Eng.'' = get r ''Current Eng.''"
    by (simp_all add: get_def)
  have u: "(row4(''Client'' := c, ''Project'' := p))
             (''ClientProject'' \<mapsto> a1, ''Client'' \<mapsto> a2, ''Project'' \<mapsto> a3,
              ''NextClientOpp'' \<mapsto> a4, ''NextClient'' \<mapsto> a5, ''NextProject'' \<mapsto> a6)
           = row4(''ClientProject'' \<mapsto> a1, ''Client'' \<mapsto> a2, ''Project'' \<mapsto> a3,
              ''NextClientOpp'' \<mapsto> a4, ''NextClient'' \<mapsto> a5, ''NextProject'' \<mapsto> a6)"
    for row4 :: row and a1 a2 a3 a4 a5 a6
    by (rule ext) simp
  show ?thesis
    unfolding transformRow_part_000_def g
    by (simp add: convertName_upd u split: sum.splits prod.splits)
qed

lemma splitComposite_cell:
  assumes "r k = Some (Str s) \<or> r k = None \<and> s = []"
  shows "splitComposite (get r k) =
           Inr (replace_Ext_at s,
                if 2 \<le> length (split (replace_Ext_at s) '' - '')
                then split (replace_Ext_at s) '' - '' ! 0 else [],
                if 2 \<le> length (split (replace_Ext_at s) '' - '')
                then split (replace_Ext_at s) '' - '' ! 1 else [])"
proof (cases "s = []")
  case True
  with assms show ?thesis
    by (auto simp: splitComposite_text replace_Ext_at_def split_def)
next
  case False
  with assms show ?thesis
    by (auto simp: splitComposite_text Let_def)
qed

lemma transformData_ignores:
  assumes "transformData rows = Inr out" and "i < length rows"
  shows "transformData (rows[i := (rows ! i)(''Client'' := c, ''Project'' := p)]) = Inr out"
proof -
  have "list_all2 (\<lambda>x y. transformRow x = Inr y) rows out"
    using assms(1) by (simp add: transformData_def map_rows_all2)
  moreover have "transformRow ((rows ! i)(''Client'' := c, ''Project'' := p)) = Inr (out ! i)"
    using transformData_nth(2) [OF assms] by (simp add: transformRow_ignores)
  ultimately have "list_all2 (\<lambda>x y. transformRow x = Inr y)
      (rows[i := (rows ! i)(''Client'' := c, ''Project'' := p)]) (out[i := out ! i])"
    by (rule list_all2_update_cong [where P = "\<lambda>x y. transformRow x = Inr y"])
  then show ?thesis
    by (simp add: transformData_def map_rows_all2)
qed

lemma transformData_part_000_ignores:
  assumes "transformData_part_000 rows = Inr out" and "i < length rows"
  shows "transformData_part_000 (rows[i := (rows ! i)(''Client'' := c, ''Project'' := p)]) = Inr out"
proof -
  have "list_all2 (\<lambda>x y. transformRow_part_000 x = Inr y) rows out"
    using assms(1) by (simp add: transformData_part_000_def map_rows_all2)
  moreover have "transformRow_part_000 ((rows ! i)(''Client'' := c, ''Project'' := p)) = Inr (out ! i)"
    using transformData_part_000_nth(2) [OF assms] by (simp add: transformRow_part_000_ignores)
  ultimately have "list_all2 (\<lambda>x y. transformRow_part_000 x = Inr y)
      (rows[i := (rows ! i)(''Client'' := c, ''Project'' := p)]) (out[i := out ! i])"
    by (rule list_all2_update_cong [where P = "\<lambda>x y. transformRow_part_000 x = Inr y"])
  then show ?thesis
    by (simp add: transformData_part_000_def map_rows_all2)
qed

section \<open>Claims about filterData\<close>

lemmas filter_eval =
  filterData_def rowTest_def fieldTest_def keys_def param_def call_split_def split_def
  some_def strict_eq_def get_def

text \<open>
  Claim C1 says that a constraint mapping holding the reserved key \<^verbatim>\<open>"tab"\<close> filters
  as the remaining keys alone would, the reserved key passing every row. The code does
  otherwise: the callback returns \<^verbatim>\<open>undefined\<close> for that key,
  \<^verbatim>\<open>every\<close> reads it as false, and no row is kept. On the one row
  \<^verbatim>\<open>{Region: "East"}\<close> the query \<^verbatim>\<open>{tab: "Sheet1"}\<close> gives the empty array where
  the empty query keeps the row, and \<^verbatim>\<open>{tab: "Sheet1", Region: "East"}\<close> gives the
  empty array where \<^verbatim>\<open>{Region: "East"}\<close> keeps the row.
\<close>

theorem filterData_tab_excludes_row:
  "filterData [[''Region'' \<mapsto> Str ''East'']] [(''tab'', ''Sheet1'')] = Inr [] \<and>
   filterData [[''Region'' \<mapsto> Str ''East'']] [] = Inr [[''Region'' \<mapsto> Str ''East'']] \<and>
   filterData [[''Region'' \<mapsto> Str ''East'']] [(''tab'', ''Sheet1''), (''Region'', ''East'')] = Inr [] \<and>
   filterData [[''Region'' \<mapsto> Str ''East'']] [(''Region'', ''East'')] = Inr [[''Region'' \<mapsto> Str ''East'']]"
  by (simp add: filter_eval)

text \<open>
  Claim C3: for a constraint mapping without the reserved key, \<^verbatim>\<open>filterData\<close> returns
  exactly the rows that pass every constraint key, in their order, where a row passes a key
  when its cell in that column is strictly equal to one of the pieces of the constraint
  value split on the comma.
\<close>

theorem filterData_spec:
  assumes "''tab'' \<notin> set (keys c)"
  shows "filterData rows c = Inr (spec_filter rows c)"
proof -
  have "list_all (\<lambda>field. field \<noteq> ''tab'' \<and> passes_key c r field) (keys c)
          = (\<forall>k \<in> set (map fst c). passes_key c r k)" for r
    using assms by (force simp: list_all_iff keys_def)
  then show ?thesis
    by (simp add: filterData_eq spec_filter_def)
qed

theorem filterData_spec_witness:
  "''tab'' \<notin> set (keys [(''Region'', ''East,West''), (''Status'', ''Active'')]) \<and>
   filterData
     [[''Region'' \<mapsto> Str ''East'', ''Status'' \<mapsto> Str ''Active''],
      [''Region'' \<mapsto> Str ''West'', ''Status'' \<mapsto> Str ''Active''],
      [''Region'' \<mapsto> Str ''North'', ''Status'' \<mapsto> Str ''Active'']]
     [(''Region'', ''East,West''), (''Status'', ''Active'')]
   = Inr (spec_filter
     [[''Region'' \<mapsto> Str ''East'', ''Status'' \<mapsto> Str ''Active''],
      [''Region'' \<mapsto> Str ''West'', ''Status'' \<mapsto> Str ''Active''],
      [''Region'' \<mapsto> Str ''North'', ''Status'' \<mapsto> Str ''Active'']]
     [(''Region'', ''East,West''), (''Status'', ''Active'')]) \<and>
   spec_filter
     [[''Region'' \<mapsto> Str ''East'', ''Status'' \<mapsto> Str ''Active''],
      [''Region'' \<mapsto> Str ''West'', ''Status'' \<mapsto> Str ''Active''],
      [''Region'' \<mapsto> Str ''North'', ''Status'' \<mapsto> Str ''Active'']]
     [(''Region'', ''East,West''), (''Status'', ''Active'')]
   = [[''Region'' \<mapsto> Str ''East'', ''Status'' \<mapsto> Str ''Active''],
      [''Region'' \<mapsto> Str ''West'', ''Status'' \<mapsto> Str ''Active'']]"
proof -
  have h: "''tab'' \<notin> set (keys [(''Region'', ''East,West''), (''Status'', ''Active'')])"
    by (simp add: keys_def)
  show ?thesis
    using h filterData_spec [OF h] by (simp add: spec_filter_def passes_key_def accepted_def split_def)
qed

text \<open>
  Claim C6: \<^verbatim>\<open>filterData\<close> is idempotent: it returns a row sequence, and filtering that
  sequence again by the same constraints returns it unchanged.
\<close>

theorem filterData_idem: "\<exists>out. filterData rows c = Inr out \<and> filterData out c = Inr out"
  by (simp add: filterData_eq)

theorem filterData_idem_witness:
  "filterData [[''Region'' \<mapsto> Str ''East''], [''Region'' \<mapsto> Str ''West'']] [(''Region'', ''East'')]
     = Inr [[''Region'' \<mapsto> Str ''East'']] \<and>
   filterData [[''Region'' \<mapsto> Str ''East'']] [(''Region'', ''East'')] = Inr [[''Region'' \<mapsto> Str ''East'']]"
proof -
  have a: "filterData [[''Region'' \<mapsto> Str ''East''], [''Region'' \<mapsto> Str ''West'']] [(''Region'', ''East'')]
     = Inr [[''Region'' \<mapsto> Str ''East'']]"
    by (simp add: filter_eval)
  from filterData_idem [of "[[''Region'' \<mapsto> Str ''East''], [''Region'' \<mapsto> Str ''West'']]" "[(''Region'', ''East'')]"]
  show ?thesis unfolding a by simp
qed

text \<open>
  Claim C8: filtering by the empty constraint mapping returns all rows, unchanged and in
  the same order.
\<close>

theorem filterData_empty: "filterData rows [] = Inr rows"
  by (simp add: filterData_eq keys_def)

theorem filterData_empty_witness:
  "filterData [[''Region'' \<mapsto> Str ''East''], [''Region'' \<mapsto> Num (Finite 3)]] []
     = Inr [[''Region'' \<mapsto> Str ''East''], [''Region'' \<mapsto> Num (Finite 3)]]"
  by (rule filterData_empty)

text \<open>
  Claim C9: for a constraint key other than the reserved one, a row that lacks the
  constrained column is not in the result, and \<^verbatim>\<open>filterData\<close> returns without an error.
\<close>

theorem filterData_missing:
  assumes "field \<in> set (keys c)" and "field \<noteq> ''tab''" and "r field = None"
  shows "\<exists>out. filterData data c = Inr out \<and> r \<notin> set out"
proof -
  have "\<not> passes_key c r field"
    using assms(3) by (simp add: passes_key_def)
  with assms(1) show ?thesis
    by (auto simp: filterData_eq list_all_iff)
qed

theorem filterData_missing_witness:
  "''Region'' \<in> set (keys [(''Region'', ''East'')]) \<and> ''Region'' \<noteq> ''tab'' \<and>
   [''Status'' \<mapsto> Str ''Active''] ''Region'' = None \<and>
   filterData [[''Status'' \<mapsto> Str ''Active''], [''Region'' \<mapsto> Str ''East'']] [(''Region'', ''East'')]
     = Inr [[''Region'' \<mapsto> Str ''East'']] \<and>
   [''Status'' \<mapsto> Str ''Active''] \<notin> set [[''Region'' \<mapsto> Str ''East'' :: jsvalue]]"
proof -
  have h1: "''Region'' \<in> set (keys [(''Region'', ''East'')])" by (simp add: keys_def)
  have h2: "''Region'' \<noteq> ''tab''" by simp
  have h3: "[''Status'' \<mapsto> Str ''Active''] ''Region'' = None" by simp
  have e: "filterData [[''Status'' \<mapsto> Str ''Active''], [''Region'' \<mapsto> Str ''East'']] [(''Region'', ''East'')]
     = Inr [[''Region'' \<mapsto> Str ''East'']]"
    by (simp add: filter_eval)
  from filterData_missing
      [where field = "''Region''" and c = "[(''Region'', ''East'')]"
         and r = "[''Status'' \<mapsto> Str ''Active'']"
         and data = "[[''Status'' \<mapsto> Str ''Active''], [''Region'' \<mapsto> Str ''East'']]",
       OF h1 h2 h3]
  show ?thesis using h1 h2 h3 unfolding e by simp
qed

section \<open>Claims about transformData\<close>

lemmas transform_eval =
  transformData_def transformRow_def splitComposite_def convertName_def formatName_def
  get_def or_empty_def call_split_def call_replace_Ext_at_def replace_Ext_at_def split_def

lemmas part_000_eval =
  transformData_part_000_def transformRow_part_000_def splitComposite_def convertName_def
  formatName_def get_def or_empty_def call_split_def call_replace_Ext_at_def replace_Ext_at_def
  split_def

text \<open>
  Claim C2 says that both functions return a result, without an exception, for every row
  sequence whose cells are strings, numbers or empty. \<^verbatim>\<open>transformData\<close> does not:
  a non-zero number in the column \<^verbatim>\<open>Name\<close> is truthy, passes the guard, and has no
  method \<^verbatim>\<open>split\<close>, so the call raises a TypeError.
\<close>

theorem transformData_total_counterexample:
  "transformData [[''Name'' \<mapsto> Num (Finite 5)]] = Inl TypeError"
  by (simp add: transform_eval)

text \<open>
  Claim C2 as amended: \<^verbatim>\<open>filterData\<close> returns a result for every row sequence and every
  constraint mapping. \<^verbatim>\<open>transformData\<close> returns a result when, in every row, each of the
  cells \<^verbatim>\<open>Primary Opp\<close>, \<^verbatim>\<open>Name\<close> and \<^verbatim>\<open>Primary Owner\<close> is a string or is
  falsy (absent, \<^verbatim>\<open>undefined\<close>, \<^verbatim>\<open>null\<close>, \<^verbatim>\<open>false\<close>, zero or NaN); all other
  cells may hold anything. When one of the three cells of some row is truthy and not a
  string, \<^verbatim>\<open>transformData\<close> raises a TypeError.
\<close>

theorem transform_filter_total:
  "(\<exists>out. filterData data c = Inr out) \<and>
   (list_all textual rows \<longrightarrow> (\<exists>out. transformData rows = Inr out)) \<and>
   (\<not> list_all textual rows \<longrightarrow> transformData rows = Inl TypeError)"
proof -
  have "(\<exists>out. transformData rows = Inr out) \<longleftrightarrow> list_all textual rows"
    by (simp add: transformData_def map_rows_Inl transformRow_returns list_all_iff)
  then show ?thesis
    by (auto simp: filterData_eq error_cases)
qed

theorem transform_filter_total_witness:
  "list_all textual [[''Hours'' \<mapsto> Num (Finite 5), ''Name'' \<mapsto> Str ''Doe, Jane''], [''Name'' \<mapsto> Num (Finite 0)]] \<and>
   transformData [[''Hours'' \<mapsto> Num (Finite 5), ''Name'' \<mapsto> Str ''Doe, Jane''], [''Name'' \<mapsto> Num (Finite 0)]]
     = Inr [[''Hours'' \<mapsto> Num (Finite 5), ''Name'' \<mapsto> Str ''Jane Doe'', ''Client'' \<mapsto> Str [], ''Project'' \<mapsto> Str []],
            [''Name'' \<mapsto> Num (Finite 0), ''Client'' \<mapsto> Str [], ''Project'' \<mapsto> Str []]] \<and>
   \<not> list_all textual [[''Primary Owner'' \<mapsto> Num (Finite 7)]] \<and>
   transformData [[''Primary Owner'' \<mapsto> Num (Finite 7)]] = Inl TypeError"
proof -
  have h1: "list_all textual [[''Hours'' \<mapsto> Num (Finite 5), ''Name'' \<mapsto> Str ''Doe, Jane''], [''Name'' \<mapsto> Num (Finite 0)]]"
    by (simp add: textual_def text_or_falsy_def get_def)
  have h2: "\<not> list_all textual [[''Primary Owner'' \<mapsto> Num (Finite 7)]]"
    by (simp add: textual_def text_or_falsy_def get_def)
  have e: "transformData [[''Hours'' \<mapsto> Num (Finite 5), ''Name'' \<mapsto> Str ''Doe, Jane''], [''Name'' \<mapsto> Num (Finite 0)]]
     = Inr [[''Hours'' \<mapsto> Num (Finite 5), ''Name'' \<mapsto> Str ''Jane Doe'', ''Client'' \<mapsto> Str [], ''Project'' \<mapsto> Str []],
            [''Name'' \<mapsto> Num (Finite 0), ''Client'' \<mapsto> Str [], ''Project'' \<mapsto> Str []]]"
    by (simp add: transform_eval)
  from transform_filter_total [of "[]" "[]" "[[''Primary Owner'' \<mapsto> Num (Finite 7)]]"] h2
  have "transformData [[''Primary Owner'' \<mapsto> Num (Finite 7)]] = Inl TypeError"
    by blast
  moreover from transform_filter_total
    [of "[]" "[]" "[[''Hours'' \<mapsto> Num (Finite 5), ''Name'' \<mapsto> Str ''Doe, Jane''], [''Name'' \<mapsto> Num (Finite 0)]]"] h1
  have "\<exists>out. transformData [[''Hours'' \<mapsto> Num (Finite 5), ''Name'' \<mapsto> Str ''Doe, Jane''], [''Name'' \<mapsto> Num (Finite 0)]] = Inr out"
    by blast
  ultimately show ?thesis using h1 h2 e by simp
qed

text \<open>
  Claim C4 says that \<^verbatim>\<open>transformData\<close> sets \<^verbatim>\<open>Client\<close> and \<^verbatim>\<open>Project\<close> to
  segments 0 and 1 of \<^verbatim>\<open>Primary Opp\<close>. The \<^verbatim>\<open>transformData\<close> of \<^verbatim>\<open>part_000\<close>
  does not: on the row \<^verbatim>\<open>{"Primary Opp": "Ext. at Acme - Widget"}\<close> the segments go to
  \<^verbatim>\<open>NextClient\<close> and \<^verbatim>\<open>NextProject\<close>, while \<^verbatim>\<open>Client\<close> and \<^verbatim>\<open>Project\<close>,
  derived from the absent \<^verbatim>\<open>Current Eng.\<close>, are empty strings.
\<close>

theorem transformData_composite_counterexample:
  "transformData_part_000 [[''Primary Opp'' \<mapsto> Str ''Ext. at Acme - Widget'']]
     = Inr [[''Primary Opp'' \<mapsto> Str ''Ext. at Acme - Widget'',
             ''ClientProject'' \<mapsto> Str [], ''Client'' \<mapsto> Str [], ''Project'' \<mapsto> Str [],
             ''NextClientOpp'' \<mapsto> Str ''Acme - Widget'', ''NextClient'' \<mapsto> Str ''Acme'',
             ''NextProject'' \<mapsto> Str ''Widget'']] \<and>
   split (replace_Ext_at ''Ext. at Acme - Widget'') '' - '' = [''Acme'', ''Widget''] \<and>
   Str [] \<noteq> Str ''Acme'' \<and> Str [] \<noteq> Str ''Widget''"
  by (simp add: transformData_part_000_def transformRow_part_000_def splitComposite_def
      convertName_def formatName_def get_def or_empty_def call_split_def call_replace_Ext_at_def
      replace_Ext_at_def split_def)

text \<open>
  Claim C4 as amended, one part per variant. Let \<^verbatim>\<open>s\<close> be the string in the cell
  \<^verbatim>\<open>Primary Opp\<close> of a row (\<^verbatim>\<open>s\<close> empty when the cell is absent). The deriving block
  raises no error. It strips a leading \<^verbatim>\<open>"Ext. at "\<close> from \<^verbatim>\<open>s\<close> and splits the rest
  on \<^verbatim>\<open>" - "\<close>; segments 0 and 1 are the derived pair when there are at least two
  segments, later segments are dropped, and the pair is two empty strings otherwise, in
  particular when the cell is absent or empty. In \<^verbatim>\<open>src/index.js\<close> and
  \<^verbatim>\<open>src/app.js\<close> the pair is written to \<^verbatim>\<open>Client\<close> and \<^verbatim>\<open>Project\<close>. In
  \<^verbatim>\<open>part_000\<close> the pair is written to \<^verbatim>\<open>NextClient\<close> and \<^verbatim>\<open>NextProject\<close> and the
  stripped text to \<^verbatim>\<open>NextClientOpp\<close>, while \<^verbatim>\<open>Client\<close>, \<^verbatim>\<open>Project\<close> and
  \<^verbatim>\<open>ClientProject\<close> are derived by the same rule from the cell \<^verbatim>\<open>Current Eng.\<close>.
\<close>

theorem transformData_composite:
  assumes "i < length rows"
    and "(rows ! i) ''Primary Opp'' = Some (Str s) \<or> (rows ! i) ''Primary Opp'' = None \<and> s = []"
  shows "(\<exists>d. splitComposite (get (rows ! i) ''Primary Opp'') = Inr d) \<and>
         (\<forall>out. transformData rows = Inr out \<longrightarrow>
            (let segments = split (replace_Ext_at s) '' - '' in
               (out ! i) ''Client'' = Some (Str (if 2 \<le> length segments then segments ! 0 else [])) \<and>
               (out ! i) ''Project'' = Some (Str (if 2 \<le> length segments then segments ! 1 else []))) \<and>
            (s = [] \<longrightarrow> (out ! i) ''Client'' = Some (Str []) \<and> (out ! i) ''Project'' = Some (Str []))) \<and>
         (\<forall>out. transformData_part_000 rows = Inr out \<longrightarrow>
            (let segments = split (replace_Ext_at s) '' - '' in
               (out ! i) ''NextClient'' = Some (Str (if 2 \<le> length segments then segments ! 0 else [])) \<and>
               (out ! i) ''NextProject'' = Some (Str (if 2 \<le> length segments then segments ! 1 else []))) \<and>
            (out ! i) ''NextClientOpp'' = Some (Str (replace_Ext_at s)) \<and>
            (s = [] \<longrightarrow> (out ! i) ''NextClient'' = Some (Str []) \<and>
                       (out ! i) ''NextProject'' = Some (Str [])) \<and>
            (\<forall>t. (rows ! i) ''Current Eng.'' = Some (Str t) \<or>
                 (rows ! i) ''Current Eng.'' = None \<and> t = [] \<longrightarrow>
               (let segments = split (replace_Ext_at t) '' - '' in
                  (out ! i) ''Client'' = Some (Str (if 2 \<le> length segments then segments ! 0 else [])) \<and>
                  (out ! i) ''Project'' = Some (Str (if 2 \<le> length segments then segments ! 1 else []))) \<and>
               (out ! i) ''ClientProject'' = Some (Str (replace_Ext_at t)) \<and>
               (t = [] \<longrightarrow> (out ! i) ''Client'' = Some (Str []) \<and>
                          (out ! i) ''Project'' = Some (Str []))))"
proof -
  have e: "split (replace_Ext_at []) '' - '' = [[]]"
    by (simp add: replace_Ext_at_def split_def)
  note d = splitComposite_cell [of "rows ! i" "''Primary Opp''" s, OF assms(2)]
  have A: "\<exists>d. splitComposite (get (rows ! i) ''Primary Opp'') = Inr d"
    using d by blast
  have B: "(let segments = split (replace_Ext_at s) '' - '' in
               (out ! i) ''Client'' = Some (Str (if 2 \<le> length segments then segments ! 0 else [])) \<and>
               (out ! i) ''Project'' = Some (Str (if 2 \<le> length segments then segments ! 1 else []))) \<and>
            (s = [] \<longrightarrow> (out ! i) ''Client'' = Some (Str []) \<and> (out ! i) ''Project'' = Some (Str []))"
    if "transformData rows = Inr out" for out
    using transformRow_derived [OF transformData_nth(2) [OF that assms(1)] d]
    by (auto simp: Let_def e)
  have C1: "(let segments = split (replace_Ext_at s) '' - '' in
               (out ! i) ''NextClient'' = Some (Str (if 2 \<le> length segments then segments ! 0 else [])) \<and>
               (out ! i) ''NextProject'' = Some (Str (if 2 \<le> length segments then segments ! 1 else []))) \<and>
            (out ! i) ''NextClientOpp'' = Some (Str (replace_Ext_at s)) \<and>
            (s = [] \<longrightarrow> (out ! i) ''NextClient'' = Some (Str []) \<and>
                       (out ! i) ''NextProject'' = Some (Str []))"
    if o: "transformData_part_000 rows = Inr out" for out
  proof -
    note t = transformData_part_000_nth(2) [OF o assms(1)]
    from t obtain ccp cc cp where
      c: "splitComposite (get (rows ! i) ''Current Eng.'') = Inr (ccp, cc, cp)"
      unfolding transformRow_part_000_steps by blast
    from transformRow_part_000_derived(4-6) [OF t d c] show ?thesis
      by (auto simp: Let_def e)
  qed
  have C2: "(let segments = split (replace_Ext_at t) '' - '' in
                  (out ! i) ''Client'' = Some (Str (if 2 \<le> length segments then segments ! 0 else [])) \<and>
                  (out ! i) ''Project'' = Some (Str (if 2 \<le> length segments then segments ! 1 else []))) \<and>
               (out ! i) ''ClientProject'' = Some (Str (replace_Ext_at t)) \<and>
               (t = [] \<longrightarrow> (out ! i) ''Client'' = Some (Str []) \<and>
                          (out ! i) ''Project'' = Some (Str []))"
    if o: "transformData_part_000 rows = Inr out"
      and c: "(rows ! i) ''Current Eng.'' = Some (Str t) \<or>
              (rows ! i) ''Current Eng.'' = None \<and> t = []" for out t
    using transformRow_part_000_derived(1-3)
      [OF transformData_part_000_nth(2) [OF o assms(1)] d
        splitComposite_cell [of "rows ! i" "''Current Eng.''" t, OF c]]
    by (auto simp: Let_def e)
  from A B C1 C2 show ?thesis
    by blast
qed

theorem transformData_composite_witness:
  "0 < length [[''Primary Opp'' \<mapsto> Str ''Ext. at Acme - Widget - Phase 2'',
                ''Current Eng.'' \<mapsto> Str ''Beta - Gamma'']] \<and>
   ([[''Primary Opp'' \<mapsto> Str ''Ext. at Acme - Widget - Phase 2'',
      ''Current Eng.'' \<mapsto> Str ''Beta - Gamma'']] ! 0) ''Primary Opp''
     = Some (Str ''Ext. at Acme - Widget - Phase 2'') \<and>
   ([[''Primary Opp'' \<mapsto> Str ''Ext. at Acme - Widget - Phase 2'',
      ''Current Eng.'' \<mapsto> Str ''Beta - Gamma'']] ! 0) ''Current Eng.''
     = Some (Str ''Beta - Gamma'') \<and>
   transformData [[''Primary Opp'' \<mapsto> Str ''Ext. at Acme - Widget - Phase 2'',
                   ''Current Eng.'' \<mapsto> Str ''Beta - Gamma'']]
     = Inr [[''Primary Opp'' \<mapsto> Str ''Ext. at Acme - Widget - Phase 2'',
             ''Current Eng.'' \<mapsto> Str ''Beta - Gamma'',
             ''Client'' \<mapsto> Str ''Acme'', ''Project'' \<mapsto> Str ''Widget'']] \<and>
   transformData_part_000 [[''Primary Opp'' \<mapsto> Str ''Ext. at Acme - Widget - Phase 2'',
                            ''Current Eng.'' \<mapsto> Str ''Beta - Gamma'']]
     = Inr [[''Primary Opp'' \<mapsto> Str ''Ext. at Acme - Widget - Phase 2'',
             ''Current Eng.'' \<mapsto> Str ''Beta - Gamma'',
             ''ClientProject'' \<mapsto> Str ''Beta - Gamma'',
             ''Client'' \<mapsto> Str ''Beta'', ''Project'' \<mapsto> Str ''Gamma'',
             ''NextClientOpp'' \<mapsto> Str ''Acme - Widget - Phase 2'',
             ''NextClient'' \<mapsto> Str ''Acme'', ''NextProject'' \<mapsto> Str ''Widget'']] \<and>
   split (replace_Ext_at ''Ext. at Acme - Widget - Phase 2'') '' - ''
     = [''Acme'', ''Widget'', ''Phase 2''] \<and>
   split (replace_Ext_at ''Beta - Gamma'') '' - '' = [''Beta'', ''Gamma'']"
proof -
  have h1: "0 < length [[''Primary Opp'' \<mapsto> Str ''Ext. at Acme - Widget - Phase 2'',
                ''Current Eng.'' \<mapsto> Str ''Beta - Gamma'']]"
    by simp
  have h2: "([[''Primary Opp'' \<mapsto> Str ''Ext. at Acme - Widget - Phase 2'',
      ''Current Eng.'' \<mapsto> Str ''Beta - Gamma'']] ! 0) ''Primary Opp''
              = Some (Str ''Ext. at Acme - Widget - Phase 2'') \<or>
            ([[''Primary Opp'' \<mapsto> Str ''Ext. at Acme - Widget - Phase 2'',
      ''Current Eng.'' \<mapsto> Str ''Beta - Gamma'']] ! 0) ''Primary Opp'' = None \<and>
            ''Ext. at Acme - Widget - Phase 2'' = []"
    by simp
  have h3: "([[''Primary Opp'' \<mapsto> Str ''Ext. at Acme - Widget - Phase 2'',
      ''Current Eng.'' \<mapsto> Str ''Beta - Gamma'']] ! 0) ''Current Eng.''
     = Some (Str ''Beta - Gamma'')"
    by simp
  have e1: "transformData [[''Primary Opp'' \<mapsto> Str ''Ext. at Acme - Widget - Phase 2'',
                   ''Current Eng.'' \<mapsto> Str ''Beta - Gamma'']]
     = Inr [[''Primary Opp'' \<mapsto> Str ''Ext. at Acme - Widget - Phase 2'',
             ''Current Eng.'' \<mapsto> Str ''Beta - Gamma'',
             ''Client'' \<mapsto> Str ''Acme'', ''Project'' \<mapsto> Str ''Widget'']]"
    by (simp add: transform_eval)
  have e2: "transformData_part_000 [[''Primary Opp'' \<mapsto> Str ''Ext. at Acme - Widget - Phase 2'',
                            ''Current Eng.'' \<mapsto> Str ''Beta - Gamma'']]
     = Inr [[''Primary Opp'' \<mapsto> Str ''Ext. at Acme - Widget - Phase 2'',
             ''Current Eng.'' \<mapsto> Str ''Beta - Gamma'',
             ''ClientProject'' \<mapsto> Str ''Beta - Gamma'',
             ''Client'' \<mapsto> Str ''Beta'', ''Project'' \<mapsto> Str ''Gamma'',
             ''NextClientOpp'' \<mapsto> Str ''Acme - Widget - Phase 2'',
             ''NextClient'' \<mapsto> Str ''Acme'', ''NextProject'' \<mapsto> Str ''Widget'']]"
    by (simp add: part_000_eval)
  have s1: "split (replace_Ext_at ''Ext. at Acme - Widget - Phase 2'') '' - ''
             = [''Acme'', ''Widget'', ''Phase 2'']"
    by (simp add: replace_Ext_at_def split_def)
  have s2: "split (replace_Ext_at ''Beta - Gamma'') '' - '' = [''Beta'', ''Gamma'']"
    by (simp add: replace_Ext_at_def split_def)
  from transformData_composite [OF h1 h2] h3 e1 e2 s1 s2 show ?thesis
    by simp
qed

text \<open>
  Claim C5 says that a name with a right-hand segment becomes
  \<^verbatim>\<open>"<right> <left>"\<close>. For \<^verbatim>\<open>"Doe, "\<close> the split yields the right-hand segment
  \<^verbatim>\<open>""\<close>, which the conditional reads as false: the name becomes the empty string,
  not \<^verbatim>\<open>" Doe"\<close>.
\<close>

theorem transformData_names_counterexample:
  "split ''Doe, '' '', '' = [''Doe'', []] \<and>
   transformData [[''Name'' \<mapsto> Str ''Doe, '']]
     = Inr [[''Name'' \<mapsto> Str [], ''Client'' \<mapsto> Str [], ''Project'' \<mapsto> Str []]] \<and>
   Str [] \<noteq> Str ('' '' @ ''Doe'')"
  by (simp add: transform_eval)

text \<open>
  Claim C5 as amended: for each of the columns \<^verbatim>\<open>Name\<close> and \<^verbatim>\<open>Primary Owner\<close>
  whose cell is a non-empty string, the output cell is \<^verbatim>\<open>"<right> <left>"\<close> when the
  split on \<^verbatim>\<open>", "\<close> has a second piece and that piece is not empty, and the empty
  string otherwise, in particular when the delimiter does not occur; a column absent from
  the row is absent from the output row.
\<close>

theorem transformData_names:
  assumes "transformData rows = Inr out" and "i < length rows"
    and "field = ''Name'' \<or> field = ''Primary Owner''"
  shows "(\<forall>s. (rows ! i) field = Some (Str s) \<and> s \<noteq> [] \<longrightarrow>
            (let parts = split s '', '' in
               (out ! i) field =
                 Some (Str (if 2 \<le> length parts \<and> parts ! 1 \<noteq> []
                            then parts ! 1 @ '' '' @ parts ! 0 else []))) \<and>
            (\<not> sublist '', '' s \<longrightarrow> (out ! i) field = Some (Str []))) \<and>
         ((rows ! i) field = None \<longrightarrow> (out ! i) field = None)"
proof -
  note t = transformData_nth(2) [OF assms(1) assms(2)]
  have "(out ! i) field = Some (Str (formatName (split s '', '')))"
    if "(rows ! i) field = Some (Str s)" and "s \<noteq> []" for s
    using transformRow_name(1) [OF t assms(3) that] .
  moreover have "formatName (split s '', '') = []" if "\<not> sublist '', '' s" for s
    using that split_length [of "'', ''" s] by (simp add: formatName_eq)
  moreover have "(rows ! i) field = None \<Longrightarrow> (out ! i) field = None"
    using transformRow_name(2) [OF t assms(3)] .
  ultimately show ?thesis
    by (simp add: formatName_eq Let_def)
qed

theorem transformData_names_witness:
  "transformData [[''Name'' \<mapsto> Str ''Doe, Jane''], [''Name'' \<mapsto> Str ''Solo'']]
     = Inr [[''Name'' \<mapsto> Str ''Jane Doe'', ''Client'' \<mapsto> Str [], ''Project'' \<mapsto> Str []],
            [''Name'' \<mapsto> Str [], ''Client'' \<mapsto> Str [], ''Project'' \<mapsto> Str []]] \<and>
   split ''Doe, Jane'' '', '' = [''Doe'', ''Jane''] \<and>
   [''Name'' \<mapsto> Str ''Jane Doe'', ''Client'' \<mapsto> Str [], ''Project'' \<mapsto> Str []] ''Name''
     = Some (Str ''Jane Doe'') \<and>
   [''Name'' \<mapsto> Str ''Jane Doe'', ''Client'' \<mapsto> Str [], ''Project'' \<mapsto> Str []] ''Primary Owner''
     = None"
proof -
  have e: "transformData [[''Name'' \<mapsto> Str ''Doe, Jane''], [''Name'' \<mapsto> Str ''Solo'']]
     = Inr [[''Name'' \<mapsto> Str ''Jane Doe'', ''Client'' \<mapsto> Str [], ''Project'' \<mapsto> Str []],
            [''Name'' \<mapsto> Str [], ''Client'' \<mapsto> Str [], ''Project'' \<mapsto> Str []]]"
    by (simp add: transform_eval)
  have i: "0 < length [[''Name'' \<mapsto> Str ''Doe, Jane''], [''Name'' \<mapsto> Str ''Solo'' :: jsvalue]]"
    by simp
  have s: "split ''Doe, Jane'' '', '' = [''Doe'', ''Jane'']"
    by (simp add: split_def)
  from transformData_names [OF e i, of "''Name''"] transformData_names [OF e i, of "''Primary Owner''"]
  have "[''Name'' \<mapsto> Str ''Jane Doe'', ''Client'' \<mapsto> Str [], ''Project'' \<mapsto> Str []] ''Name''
          = Some (Str ''Jane Doe'')"
    and "[''Name'' \<mapsto> Str ''Jane Doe'', ''Client'' \<mapsto> Str [], ''Project'' \<mapsto> Str []] ''Primary Owner''
          = None"
    by (simp_all add: s)
  with e s show ?thesis by simp
qed

text \<open>
  Claim C7: when \<^verbatim>\<open>transformData\<close> returns, the output has the length of the input,
  and its row at each index is the transformed input row of that index.
\<close>

theorem transformData_length:
  assumes "transformData rows = Inr out"
  shows "length out = length rows \<and> (\<forall>i<length rows. transformRow (rows ! i) = Inr (out ! i))"
  using transformData_nth [OF assms] by simp

theorem transformData_length_witness:
  "transformData [[''Name'' \<mapsto> Str ''Doe, Jane''], [''Name'' \<mapsto> Str ''Solo'']]
     = Inr [[''Name'' \<mapsto> Str ''Jane Doe'', ''Client'' \<mapsto> Str [], ''Project'' \<mapsto> Str []],
            [''Name'' \<mapsto> Str [], ''Client'' \<mapsto> Str [], ''Project'' \<mapsto> Str []]] \<and>
   length [[''Name'' \<mapsto> Str ''Jane Doe'', ''Client'' \<mapsto> Str [], ''Project'' \<mapsto> Str []],
           [''Name'' \<mapsto> Str [], ''Client'' \<mapsto> Str [], ''Project'' \<mapsto> Str []]]
     = length [[''Name'' \<mapsto> Str ''Doe, Jane''], [''Name'' \<mapsto> Str ''Solo'' :: jsvalue]] \<and>
   transformRow [''Name'' \<mapsto> Str ''Solo'']
     = Inr [''Name'' \<mapsto> Str [], ''Client'' \<mapsto> Str [], ''Project'' \<mapsto> Str []]"
proof -
  have e: "transformData [[''Name'' \<mapsto> Str ''Doe, Jane''], [''Name'' \<mapsto> Str ''Solo'']]
     = Inr [[''Name'' \<mapsto> Str ''Jane Doe'', ''Client'' \<mapsto> Str [], ''Project'' \<mapsto> Str []],
            [''Name'' \<mapsto> Str [], ''Client'' \<mapsto> Str [], ''Project'' \<mapsto> Str []]]"
    by (simp add: transform_eval)
  from transformData_length [OF e] have
    "\<forall>i<length [[''Name'' \<mapsto> Str ''Doe, Jane''], [''Name'' \<mapsto> Str ''Solo'']].
       transformRow ([[''Name'' \<mapsto> Str ''Doe, Jane''], [''Name'' \<mapsto> Str ''Solo'']] ! i)
       = Inr ([[''Name'' \<mapsto> Str ''Jane Doe'', ''Client'' \<mapsto> Str [], ''Project'' \<mapsto> Str []],
            [''Name'' \<mapsto> Str [], ''Client'' \<mapsto> Str [], ''Project'' \<mapsto> Str []]] ! i)"
    by blast
  from this [rule_format, of 1] e show ?thesis
    by simp
qed

text \<open>
  Claim C10 says that \<^verbatim>\<open>Client\<close> and \<^verbatim>\<open>Project\<close> of the output row are the values
  derived from \<^verbatim>\<open>Primary Opp\<close>. The \<^verbatim>\<open>transformData\<close> of \<^verbatim>\<open>part_000\<close> overwrites
  the row's own \<^verbatim>\<open>Client\<close>, but with the value derived from \<^verbatim>\<open>Current Eng.\<close>: on
  the row \<^verbatim>\<open>{"Primary Opp": "Ext. at Acme - Widget", "Client": "Old"}\<close> the output
  \<^verbatim>\<open>Client\<close> is the empty string, while the client derived from \<^verbatim>\<open>Primary Opp\<close> is
  \<^verbatim>\<open>"Acme"\<close>.
\<close>

theorem transformData_overwrites_counterexample:
  "transformData_part_000
     [[''Primary Opp'' \<mapsto> Str ''Ext. at Acme - Widget'', ''Client'' \<mapsto> Str ''Old'']]
     = Inr [[''Primary Opp'' \<mapsto> Str ''Ext. at Acme - Widget'',
             ''ClientProject'' \<mapsto> Str [], ''Client'' \<mapsto> Str [], ''Project'' \<mapsto> Str [],
             ''NextClientOpp'' \<mapsto> Str ''Acme - Widget'', ''NextClient'' \<mapsto> Str ''Acme'',
             ''NextProject'' \<mapsto> Str ''Widget'']] \<and>
   splitComposite (Str ''Ext. at Acme - Widget'') = Inr (''Acme - Widget'', ''Acme'', ''Widget'') \<and>
   Str [] \<noteq> Str ''Acme'' \<and> Str [] \<noteq> Str ''Widget''"
  by (simp add: part_000_eval)

text \<open>
  Claim C10 as amended, one part per variant. In every output row \<^verbatim>\<open>Client\<close> and
  \<^verbatim>\<open>Project\<close> hold the freshly derived values: derived from \<^verbatim>\<open>Primary Opp\<close> in
  \<^verbatim>\<open>src/index.js\<close> and \<^verbatim>\<open>src/app.js\<close>, and from \<^verbatim>\<open>Current Eng.\<close> in
  \<^verbatim>\<open>part_000\<close>. In both variants the output is the same whatever the input row held in
  the columns \<^verbatim>\<open>Client\<close> and \<^verbatim>\<open>Project\<close>, or whether it held them at all.
\<close>

theorem transformData_overwrites:
  assumes "i < length rows"
  shows "(\<forall>out. transformData rows = Inr out \<longrightarrow>
            (\<exists>primaryOpp client project.
               splitComposite (get (rows ! i) ''Primary Opp'') = Inr (primaryOpp, client, project) \<and>
               (out ! i) ''Client'' = Some (Str client) \<and>
               (out ! i) ''Project'' = Some (Str project)) \<and>
            transformData (rows[i := (rows ! i)(''Client'' := c, ''Project'' := p)]) = Inr out) \<and>
         (\<forall>out. transformData_part_000 rows = Inr out \<longrightarrow>
            (\<exists>current_client_project current_client current_project.
               splitComposite (get (rows ! i) ''Current Eng.'')
                 = Inr (current_client_project, current_client, current_project) \<and>
               (out ! i) ''Client'' = Some (Str current_client) \<and>
               (out ! i) ''Project'' = Some (Str current_project)) \<and>
            transformData_part_000 (rows[i := (rows ! i)(''Client'' := c, ''Project'' := p)])
              = Inr out)"
proof -
  have A: "(\<exists>primaryOpp client project.
               splitComposite (get (rows ! i) ''Primary Opp'') = Inr (primaryOpp, client, project) \<and>
               (out ! i) ''Client'' = Some (Str client) \<and>
               (out ! i) ''Project'' = Some (Str project)) \<and>
            transformData (rows[i := (rows ! i)(''Client'' := c, ''Project'' := p)]) = Inr out"
    if o: "transformData rows = Inr out" for out
  proof -
    note t = transformData_nth(2) [OF o assms]
    then obtain primaryOpp client project where
      d: "splitComposite (get (rows ! i) ''Primary Opp'') = Inr (primaryOpp, client, project)"
      unfolding transformRow_steps by blast
    from d transformRow_derived [OF t d] transformData_ignores [OF o assms] show ?thesis
      by blast
  qed
  have B: "(\<exists>current_client_project current_client current_project.
               splitComposite (get (rows ! i) ''Current Eng.'')
                 = Inr (current_client_project, current_client, current_project) \<and>
               (out ! i) ''Client'' = Some (Str current_client) \<and>
               (out ! i) ''Project'' = Some (Str current_project)) \<and>
            transformData_part_000 (rows[i := (rows ! i)(''Client'' := c, ''Project'' := p)])
              = Inr out"
    if o: "transformData_part_000 rows = Inr out" for out
  proof -
    note t = transformData_part_000_nth(2) [OF o assms]
    then obtain ncp nc np ccp cc cp where
      n: "splitComposite (get (rows ! i) ''Primary Opp'') = Inr (ncp, nc, np)"
      and d: "splitComposite (get (rows ! i) ''Current Eng.'') = Inr (ccp, cc, cp)"
      unfolding transformRow_part_000_steps by blast
    from d transformRow_part_000_derived(2,3) [OF t n d]
      transformData_part_000_ignores [OF o assms]
    show ?thesis
      by blast
  qed
  from A B show ?thesis
    by blast
qed

theorem transformData_overwrites_witness:
  "transformData [[''Primary Opp'' \<mapsto> Str ''Acme - Widget'', ''Client'' \<mapsto> Str ''Old'']]
     = Inr [[''Primary Opp'' \<mapsto> Str ''Acme - Widget'', ''Client'' \<mapsto> Str ''Acme'',
             ''Project'' \<mapsto> Str ''Widget'']] \<and>
   transformData [[''Primary Opp'' \<mapsto> Str ''Acme - Widget'']]
     = Inr [[''Primary Opp'' \<mapsto> Str ''Acme - Widget'', ''Client'' \<mapsto> Str ''Acme'',
             ''Project'' \<mapsto> Str ''Widget'']] \<and>
   transformData_part_000 [[''Current Eng.'' \<mapsto> Str ''Beta - Gamma'', ''Client'' \<mapsto> Str ''Old'']]
     = Inr [[''Current Eng.'' \<mapsto> Str ''Beta - Gamma'', ''ClientProject'' \<mapsto> Str ''Beta - Gamma'',
             ''Client'' \<mapsto> Str ''Beta'', ''Project'' \<mapsto> Str ''Gamma'',
             ''NextClientOpp'' \<mapsto> Str [], ''NextClient'' \<mapsto> Str [],
             ''NextProject'' \<mapsto> Str []]] \<and>
   transformData_part_000 [[''Current Eng.'' \<mapsto> Str ''Beta - Gamma'']]
     = Inr [[''Current Eng.'' \<mapsto> Str ''Beta - Gamma'', ''ClientProject'' \<mapsto> Str ''Beta - Gamma'',
             ''Client'' \<mapsto> Str ''Beta'', ''Project'' \<mapsto> Str ''Gamma'',
             ''NextClientOpp'' \<mapsto> Str [], ''NextClient'' \<mapsto> Str [],
             ''NextProject'' \<mapsto> Str []]]"
proof -
  have e1: "transformData [[''Primary Opp'' \<mapsto> Str ''Acme - Widget'', ''Client'' \<mapsto> Str ''Old'']]
     = Inr [[''Primary Opp'' \<mapsto> Str ''Acme - Widget'', ''Client'' \<mapsto> Str ''Acme'',
             ''Project'' \<mapsto> Str ''Widget'']]"
    by (simp add: transform_eval)
  have e2: "transformData_part_000 [[''Current Eng.'' \<mapsto> Str ''Beta - Gamma'', ''Client'' \<mapsto> Str ''Old'']]
     = Inr [[''Current Eng.'' \<mapsto> Str ''Beta - Gamma'', ''ClientProject'' \<mapsto> Str ''Beta - Gamma'',
             ''Client'' \<mapsto> Str ''Beta'', ''Project'' \<mapsto> Str ''Gamma'',
             ''NextClientOpp'' \<mapsto> Str [], ''NextClient'' \<mapsto> Str [],
             ''NextProject'' \<mapsto> Str []]]"
    by (simp add: part_000_eval)
  have i1: "0 < length [[''Primary Opp'' \<mapsto> Str ''Acme - Widget'', ''Client'' \<mapsto> Str ''Old'']]"
    by simp
  have i2: "0 < length [[''Current Eng.'' \<mapsto> Str ''Beta - Gamma'', ''Client'' \<mapsto> Str ''Old'']]"
    by simp
  have u1: "[[''Primary Opp'' \<mapsto> Str ''Acme - Widget'', ''Client'' \<mapsto> Str ''Old'']]
             [0 := ([[''Primary Opp'' \<mapsto> Str ''Acme - Widget'', ''Client'' \<mapsto> Str ''Old'']] ! 0)
                     (''Client'' := None, ''Project'' := None)]
           = [[''Primary Opp'' \<mapsto> Str ''Acme - Widget'']]"
    by (simp add: fun_eq_iff)
  have u2: "[[''Current Eng.'' \<mapsto> Str ''Beta - Gamma'', ''Client'' \<mapsto> Str ''Old'']]
             [0 := ([[''Current Eng.'' \<mapsto> Str ''Beta - Gamma'', ''Client'' \<mapsto> Str ''Old'']] ! 0)
                     (''Client'' := None, ''Project'' := None)]
           = [[''Current Eng.'' \<mapsto> Str ''Beta - Gamma'']]"
    by (simp add: fun_eq_iff)
  from transformData_overwrites [OF i1, of None None] e1
  have a: "transformData [[''Primary Opp'' \<mapsto> Str ''Acme - Widget'']]
     = Inr [[''Primary Opp'' \<mapsto> Str ''Acme - Widget'', ''Client'' \<mapsto> Str ''Acme'',
             ''Project'' \<mapsto> Str ''Widget'']]"
    unfolding u1 by blast
  from transformData_overwrites [OF i2, of None None] e2
  have b: "transformData_part_000 [[''Current Eng.'' \<mapsto> Str ''Beta - Gamma'']]
     = Inr [[''Current Eng.'' \<mapsto> Str ''Beta - Gamma'', ''ClientProject'' \<mapsto> Str ''Beta - Gamma'',
             ''Client'' \<mapsto> Str ''Beta'', ''Project'' \<mapsto> Str ''Gamma'',
             ''NextClientOpp'' \<mapsto> Str [], ''NextClient'' \<mapsto> Str [],
             ''NextProject'' \<mapsto> Str []]]"
    unfolding u2 by blast
  from e1 e2 a b show ?thesis
    by simp
qed

end
